theory Spec2Isabelle
  imports Main
begin

section \<open>Enumerations of app.db.models\<close>

text \<open>
  Modelled from the spec: the enum declarations \<open>NodeStatus\<close> and
  \<open>DataLimitResetStrategy\<close> of \<open>app.db.models\<close> are imported by the
  sources but not part of them. Their members are the ones the sources name
  (\<open>NodeStatus.connected\<close>, \<open>DataLimitResetStrategy.no_reset\<close>, ...) and the
  data model lists. The strategy members carry the prefix \<open>reset_\<close> because
  \<open>day\<close>, \<open>month\<close> and \<open>year\<close> are also fields of a datetime.
\<close>

datatype NodeStatus = connecting | connected | error | disabled | limited

datatype DataLimitResetStrategy = no_reset | reset_day | reset_week | reset_month | reset_year

section \<open>Python's datetime\<close>

text \<open>
  A \<open>datetime.datetime\<close> in UTC, as the fields the interpreter stores. The
  functions below are the ones of the standard library's \<open>datetime\<close> module that
  the sources reach through \<open>.date()\<close>, \<open>.weekday()\<close>, \<open>.timetuple().tm_yday\<close>,
  date subtraction and \<open>max\<close>.
\<close>

record datetime =
  year :: nat
  month :: nat
  day :: nat
  hour :: nat
  minute :: nat
  second :: nat
  microsecond :: nat

definition is_leap :: "nat \<Rightarrow> bool" where
  "is_leap y = (y mod 4 = 0 \<and> (y mod 100 \<noteq> 0 \<or> y mod 400 = 0))"

definition days_before_year :: "nat \<Rightarrow> int" where
  "days_before_year y =
     (let p = int y - 1 in p * 365 + p div 4 - p div 100 + p div 400)"

definition DAYS_BEFORE_MONTH :: "int list" where
  "DAYS_BEFORE_MONTH = [-1, 0, 31, 59, 90, 120, 151, 181, 212, 243, 273, 304, 334]"

definition DAYS_IN_MONTH :: "nat list" where
  "DAYS_IN_MONTH = [0, 31, 28, 31, 30, 31, 30, 31, 31, 30, 31, 30, 31]"

definition days_in_month :: "nat \<Rightarrow> nat \<Rightarrow> nat" where
  "days_in_month y m = (if m = 2 \<and> is_leap y then 29 else DAYS_IN_MONTH ! m)"

definition days_before_month :: "nat \<Rightarrow> nat \<Rightarrow> int" where
  "days_before_month y m =
     DAYS_BEFORE_MONTH ! m + (if m > 2 \<and> is_leap y then 1 else 0)"

text \<open>The objects the interpreter can build: the constructor refuses any other field.\<close>

definition valid_datetime :: "datetime \<Rightarrow> bool" where
  "valid_datetime d =
     (1 \<le> year d \<and> year d \<le> 9999 \<and> 1 \<le> month d \<and> month d \<le> 12 \<and>
      1 \<le> day d \<and> day d \<le> days_in_month (year d) (month d) \<and>
      hour d < 24 \<and> minute d < 60 \<and> second d < 60 \<and> microsecond d < 1000000)"

definition toordinal :: "datetime \<Rightarrow> int" where
  "toordinal d = days_before_year (year d) + days_before_month (year d) (month d) + int (day d)"

definition weekday :: "datetime \<Rightarrow> int" where
  "weekday d = (toordinal d + 6) mod 7"

definition tm_yday :: "datetime \<Rightarrow> int" where
  "tm_yday d = days_before_month (year d) (month d) + int (day d)"

text \<open>\<open>a.date() > b.date()\<close>: dates compare as the tuples (year, month, day).\<close>

definition date_gt :: "datetime \<Rightarrow> datetime \<Rightarrow> bool" where
  "date_gt a b =
     (year a > year b \<or> (year a = year b \<and>
        (month a > month b \<or> (month a = month b \<and> day a > day b))))"

text \<open>\<open>(a.date() - b.date()).days\<close>: the difference of the ordinals.\<close>

definition date_diff_days :: "datetime \<Rightarrow> datetime \<Rightarrow> int" where
  "date_diff_days a b = toordinal a - toordinal b"

text \<open>\<open>a > b\<close> on datetimes of one timezone: the tuples of all seven fields.\<close>

definition datetime_gt :: "datetime \<Rightarrow> datetime \<Rightarrow> bool" where
  "datetime_gt a b =
     (date_gt a b \<or> (year a = year b \<and> month a = month b \<and> day a = day b \<and>
        (hour a > hour b \<or> (hour a = hour b \<and>
          (minute a > minute b \<or> (minute a = minute b \<and>
            (second a > second b \<or> (second a = second b \<and>
              microsecond a > microsecond b))))))))"

text \<open>\<open>max\<close> over a non-empty iterable keeps the first of the largest items.\<close>

fun max_datetime :: "datetime \<Rightarrow> datetime list \<Rightarrow> datetime" where
  "max_datetime m [] = m"
| "max_datetime m (d # ds) = max_datetime (if datetime_gt d m then d else m) ds"

text \<open>\<open>d.hour * 3600 + d.minute * 60 + d.second\<close>, which the sources write out at each use.\<close>

definition seconds_of_day :: "datetime \<Rightarrow> int" where
  "seconds_of_day d = int (hour d * 3600 + minute d * 60 + second d)"

text \<open>
  Whole seconds from \<open>b\<close> to \<open>a\<close>, as \<open>(a - b)\<close> gives them: the days of the
  ordinals and the seconds within the day.
\<close>

definition elapsed_seconds :: "datetime \<Rightarrow> datetime \<Rightarrow> int" where
  "elapsed_seconds a b =
     (toordinal a - toordinal b) * 86400 + (seconds_of_day a - seconds_of_day b)"

section \<open>app/models/node.py: validation of reset_time\<close>

definition SECONDS_IN_DAY :: int where "SECONDS_IN_DAY = 86400"
definition SECONDS_IN_WEEK :: int where "SECONDS_IN_WEEK = 604800"
definition SECONDS_IN_MONTH :: int where "SECONDS_IN_MONTH = 2678400"
definition SECONDS_IN_YEAR :: int where "SECONDS_IN_YEAR = 31536000"

datatype py_error = ValueError | CommitFailed | InvalidRequestError

text \<open>
  The fields of the pydantic model that the model validator reads. The strategy is
  optional because \<open>NodeModify\<close> inherits the validator with an optional field; in
  \<open>NodeCreate\<close> it is always present.
\<close>

record NodeCreate =
  nc_data_limit_reset_strategy :: "DataLimitResetStrategy option"
  nc_reset_time :: int

text \<open>The dictionary \<open>max_values\<close> and its \<open>.get\<close>.\<close>

definition max_values :: "DataLimitResetStrategy \<Rightarrow> int option" where
  "max_values s =
     (case s of
        reset_day \<Rightarrow> Some SECONDS_IN_DAY
      | reset_week \<Rightarrow> Some SECONDS_IN_WEEK
      | reset_month \<Rightarrow> Some SECONDS_IN_MONTH
      | reset_year \<Rightarrow> Some SECONDS_IN_YEAR
      | no_reset \<Rightarrow> None)"

definition validate_reset_time_for_strategy :: "NodeCreate \<Rightarrow> py_error + NodeCreate" where
  "validate_reset_time_for_strategy self =
     (case nc_data_limit_reset_strategy self of
        None \<Rightarrow> Inr self
      | Some s \<Rightarrow>
          if s = no_reset \<or> nc_reset_time self = - 1 then Inr self
          else (case max_values s of
                  None \<Rightarrow> Inr self
                | Some max_value \<Rightarrow>
                    if max_value \<noteq> 0 \<and> nc_reset_time self \<ge> max_value then Inl ValueError
                    else Inr self))"

section \<open>app/db/crud/node.py: the schedule of a node in absolute mode\<close>

text \<open>
  The body of the \<open>else\<close> branch of the loop of \<open>get_nodes_to_reset_usage\<close>, from
  \<open>should_reset = False\<close> to the last \<open>elif\<close>: the value of \<open>should_reset\<close> for a
  node of the given strategy and reset_time, the instant \<open>now\<close> and the node's last
  reset.
\<close>

definition month_target_day :: "int \<Rightarrow> int" where
  "month_target_day reset_time = min (reset_time div 86400) 28"

definition should_reset :: "DataLimitResetStrategy \<Rightarrow> int \<Rightarrow> datetime \<Rightarrow> datetime \<Rightarrow> bool" where
  "should_reset strategy reset_time now last_reset =
     (if strategy = reset_day then
        (let current_seconds = seconds_of_day now;
             last_reset_seconds = seconds_of_day last_reset
         in current_seconds \<ge> reset_time \<and>
            (date_gt now last_reset \<or> last_reset_seconds < reset_time))
      else if strategy = reset_week then
        (let current_day = weekday now;
             current_seconds = seconds_of_day now;
             current_week_seconds = current_day * 86400 + current_seconds;
             last_reset_day = weekday last_reset;
             last_reset_seconds = seconds_of_day last_reset;
             last_reset_week_seconds = last_reset_day * 86400 + last_reset_seconds;
             days_diff = date_diff_days now last_reset
         in days_diff \<ge> 7 \<and> current_week_seconds \<ge> reset_time \<and>
            (last_reset_week_seconds < reset_time \<or> days_diff > 7))
      else if strategy = reset_month then
        (let target_day = month_target_day reset_time;
             target_seconds = reset_time mod 86400;
             current_day = int (day now);
             current_seconds = seconds_of_day now
         in (current_day > target_day \<or>
               (current_day = target_day \<and> current_seconds \<ge> target_seconds)) \<and>
            (year now > year last_reset \<or> month now > month last_reset \<or>
               (month now = month last_reset \<and>
                  (int (day last_reset) < target_day \<or>
                     (int (day last_reset) = target_day \<and>
                      seconds_of_day last_reset < target_seconds)))))
      else if strategy = reset_year then
        (let target_day_of_year = reset_time div 86400;
             target_seconds = reset_time mod 86400;
             current_day_of_year = tm_yday now;
             current_seconds = seconds_of_day now;
             last_reset_day_of_year = tm_yday last_reset
         in (current_day_of_year > target_day_of_year \<or>
               (current_day_of_year = target_day_of_year \<and> current_seconds \<ge> target_seconds)) \<and>
            (year now > year last_reset \<or>
               (year now = year last_reset \<and> last_reset_day_of_year < target_day_of_year)))
      else False)"

section \<open>The tables and the candidate query\<close>

text \<open>
  Modelled from the spec: the ORM classes \<open>Node\<close> and \<open>NodeUsageResetLogs\<close> of
  \<open>app.db.models\<close> are not part of the sources. The records hold the columns the
  sources read or write and the ones the data model names; the primary key \<open>id\<close> is
  written \<open>id'\<close>.
\<close>

record Node =
  id' :: int
  name :: string
  address :: string
  port :: int
  status :: NodeStatus
  uplink :: int
  downlink :: int
  data_limit :: int
  data_limit_reset_strategy :: DataLimitResetStrategy
  reset_time :: int
  created_at :: datetime
  message :: "string option"
  xray_version :: "string option"
  node_version :: "string option"

record NodeUsageResetLogs =
  log_node_id :: int
  log_uplink :: int
  log_downlink :: int
  log_created_at :: datetime

text \<open>The committed contents of the two tables, rows in the order the store returns them.\<close>

record db_state =
  nodes :: "Node list"
  node_usage_reset_logs :: "NodeUsageResetLogs list"

text \<open>The relationship \<open>node.usage_logs\<close>: the log rows of the node.\<close>

definition usage_logs :: "db_state \<Rightarrow> Node \<Rightarrow> NodeUsageResetLogs list" where
  "usage_logs db node = filter (\<lambda>log. log_node_id log = id' node) (node_usage_reset_logs db)"

text \<open>
  \<open>last_reset_subq\<close> joined to the node and \<open>coalesce\<close>d with \<open>Node.created_at\<close>; the
  loop computes the same value with \<open>max(log.created_at for log in node.usage_logs)\<close>.
\<close>

definition last_reset_time :: "db_state \<Rightarrow> Node \<Rightarrow> datetime" where
  "last_reset_time db node =
     (case map log_created_at (usage_logs db node) of
        [] \<Rightarrow> created_at node
      | d # ds \<Rightarrow> max_datetime d ds)"

text \<open>The dictionary \<open>reset_strategy_to_days\<close> as the SQL \<open>case\<close>, \<open>else_=None\<close>.\<close>

definition num_days_to_reset_case :: "DataLimitResetStrategy \<Rightarrow> int option" where
  "num_days_to_reset_case s =
     (case s of
        reset_day \<Rightarrow> Some 1
      | reset_week \<Rightarrow> Some 7
      | reset_month \<Rightarrow> Some 30
      | reset_year \<Rightarrow> Some 365
      | no_reset \<Rightarrow> None)"

text \<open>
  Modelled from the spec: \<open>DateDiff\<close> of \<open>app.db.compiles_types\<close> is not part of the
  sources. The spec gives it as the calendar-day difference of the two instants, not
  fractional hours.
\<close>

definition DateDiff :: "datetime \<Rightarrow> datetime \<Rightarrow> int" where
  "DateDiff a b = date_diff_days a b"

text \<open>
  \<open>DateDiff(func.now(), last_reset_time) >= num_days_to_reset_case\<close>: a comparison
  with NULL selects no row.
\<close>

definition interval_due :: "DataLimitResetStrategy \<Rightarrow> datetime \<Rightarrow> datetime \<Rightarrow> bool" where
  "interval_due strategy sql_now last_reset =
     (case num_days_to_reset_case strategy of
        None \<Rightarrow> False
      | Some days \<Rightarrow> DateDiff sql_now last_reset \<ge> days)"

text \<open>The \<open>where\<close> clause of \<open>stmt\<close> on one row.\<close>

definition stmt_where :: "db_state \<Rightarrow> datetime \<Rightarrow> Node \<Rightarrow> bool" where
  "stmt_where db sql_now node =
     (status node \<in> {connected, limited, error, connecting} \<and>
      data_limit_reset_strategy node \<noteq> no_reset \<and>
      (if reset_time node = - 1
       then interval_due (data_limit_reset_strategy node) sql_now (last_reset_time db node)
       else True))"

text \<open>
  The loop over the fetched nodes. Each node in absolute mode reads the clock once:
  \<open>clock k\<close> is the result of the \<open>k\<close>-th call of \<open>datetime.now(timezone.utc)\<close>.
\<close>

fun filter_nodes :: "db_state \<Rightarrow> (nat \<Rightarrow> datetime) \<Rightarrow> nat \<Rightarrow> Node list \<Rightarrow> Node list" where
  "filter_nodes db clock k [] = []"
| "filter_nodes db clock k (node # rest) =
     (if reset_time node = - 1 then node # filter_nodes db clock k rest
      else
        (let now = clock k;
             last_reset = (if usage_logs db node \<noteq> []
                           then (case map log_created_at (usage_logs db node) of
                                   d # ds \<Rightarrow> max_datetime d ds
                                 | [] \<Rightarrow> created_at node)
                           else created_at node)
         in if should_reset (data_limit_reset_strategy node) (reset_time node) now last_reset
            then node # filter_nodes db clock (Suc k) rest
            else filter_nodes db clock (Suc k) rest))"

definition get_nodes_to_reset_usage :: "db_state \<Rightarrow> datetime \<Rightarrow> (nat \<Rightarrow> datetime) \<Rightarrow> Node list" where
  "get_nodes_to_reset_usage db sql_now clock =
     filter_nodes db clock 0 (filter (stmt_where db sql_now) (nodes db))"

section \<open>The session and the reset of usage\<close>

text \<open>
  What the two reset functions use of the ORM session \<open>db\<close>: the committed tables, the
  identity map (one in-memory object per primary key; a \<open>Node\<close> object handed to a
  function is its key) and the list of objects added and not yet inserted. A log
  object has no \<open>created_at\<close> until its row is inserted.
\<close>

record pending_log =
  new_node_id :: int
  new_uplink :: int
  new_downlink :: int

record session =
  store :: db_state
  identity_map :: "int \<rightharpoonup> Node"
  new :: "pending_log list"

definition add :: "pending_log \<Rightarrow> session \<Rightarrow> session" where
  "add obj db = db\<lparr>new := new db @ [obj]\<rparr>"

definition set_attrs :: "int \<Rightarrow> (Node \<Rightarrow> Node) \<Rightarrow> session \<Rightarrow> session" where
  "set_attrs r f db = db\<lparr>identity_map := (identity_map db)(r := map_option f (identity_map db r))\<rparr>"

definition insert_row :: "datetime \<Rightarrow> pending_log \<Rightarrow> NodeUsageResetLogs" where
  "insert_row stamp obj =
     \<lparr>log_node_id = new_node_id obj, log_uplink = new_uplink obj,
      log_downlink = new_downlink obj, log_created_at = stamp\<rparr>"

text \<open>The flush of a commit: every object is written to the row of its key, every added object is inserted.\<close>

definition flush :: "datetime \<Rightarrow> session \<Rightarrow> db_state" where
  "flush stamp db =
     \<lparr>nodes = map (\<lambda>row. case identity_map db (id' row) of Some obj \<Rightarrow> obj | None \<Rightarrow> row)
                  (nodes (store db)),
      node_usage_reset_logs = node_usage_reset_logs (store db) @ map (insert_row stamp) (new db)\<rparr>"

definition get_row :: "db_state \<Rightarrow> int \<Rightarrow> Node option" where
  "get_row st r = find (\<lambda>row. id' row = r) (nodes st)"

text \<open>A rollback discards the added objects and expires the loaded ones, which read their rows again.\<close>

definition rollback :: "session \<Rightarrow> session" where
  "rollback db =
     db\<lparr>new := [],
        identity_map := (\<lambda>k. case identity_map db k of None \<Rightarrow> None | Some _ \<Rightarrow> get_row (store db) k)\<rparr>"

text \<open>
  \<open>await db.commit()\<close>. Whether the store accepts the transaction is an input, \<open>ok\<close>:
  it is written as a whole, or the call raises and the transaction is rolled back.
\<close>

definition commit :: "bool \<Rightarrow> datetime \<Rightarrow> session \<Rightarrow> session \<times> (py_error + unit)" where
  "commit ok stamp db =
     (if ok then (db\<lparr>store := flush stamp db, new := []\<rparr>, Inr ())
      else (rollback db, Inl CommitFailed))"

text \<open>\<open>await db.refresh(node)\<close>: the object reads its row; without a row the call raises.\<close>

definition refresh :: "session \<Rightarrow> int \<Rightarrow> session \<times> (py_error + Node)" where
  "refresh db r =
     (case get_row (store db) r of
        None \<Rightarrow> (db, Inl InvalidRequestError)
      | Some row \<Rightarrow> (db\<lparr>identity_map := (identity_map db)(r \<mapsto> row)\<rparr>, Inr row))"

text \<open>
  The assignments both functions make to one node: \<open>uplink = 0\<close>, \<open>downlink = 0\<close>, and
  \<open>status = connecting\<close> if the status is \<open>limited\<close>.
\<close>

definition zero_usage :: "Node \<Rightarrow> Node" where
  "zero_usage db_node =
     (let db_node = db_node\<lparr>uplink := 0\<rparr>;
          db_node = db_node\<lparr>downlink := 0\<rparr>
      in if status db_node = limited then db_node\<lparr>status := connecting\<rparr> else db_node)"


text \<open>The first loop of \<open>bulk_reset_node_usage\<close>.\<close>

fun bulk_loop :: "session \<Rightarrow> int list \<Rightarrow> session" where
  "bulk_loop db [] = db"
| "bulk_loop db (r # rs) =
     (case identity_map db r of
        None \<Rightarrow> bulk_loop db rs
      | Some db_node \<Rightarrow>
          (let usage_log = \<lparr>new_node_id = id' db_node, new_uplink = uplink db_node,
                            new_downlink = downlink db_node\<rparr>;
               db = add usage_log db;
               db = set_attrs r zero_usage db
           in bulk_loop db rs))"

text \<open>The second loop: each node is refreshed in turn; the list returned holds the refreshed nodes.\<close>

fun refresh_all :: "session \<Rightarrow> int list \<Rightarrow> session \<times> (py_error + Node list)" where
  "refresh_all db [] = (db, Inr [])"
| "refresh_all db (r # rs) =
     (case refresh db r of
        (db, Inl e) \<Rightarrow> (db, Inl e)
      | (db, Inr node) \<Rightarrow>
          (case refresh_all db rs of
             (db, Inl e) \<Rightarrow> (db, Inl e)
           | (db, Inr ns) \<Rightarrow> (db, Inr (node # ns))))"

definition bulk_reset_node_usage ::
    "bool \<Rightarrow> datetime \<Rightarrow> session \<Rightarrow> int list \<Rightarrow> session \<times> (py_error + Node list)" where
  "bulk_reset_node_usage ok stamp db rs =
     (if \<exists>r \<in> set rs. identity_map db r = None then (db, Inl InvalidRequestError)
      else
        (let db = bulk_loop db rs
         in case commit ok stamp db of
              (db, Inl e) \<Rightarrow> (db, Inl e)
            | (db, Inr _) \<Rightarrow> refresh_all db rs))"

text \<open>The identity map keys each object by its primary key.\<close>

definition identity_ok :: "session \<Rightarrow> bool" where
  "identity_ok db = (\<forall>k obj. identity_map db k = Some obj \<longrightarrow> id' obj = k)"

text \<open>The object of key \<open>r\<close> is persistent: the table has its row.\<close>

definition persistent :: "session \<Rightarrow> int \<Rightarrow> bool" where
  "persistent db r = (identity_map db r \<noteq> None \<and> get_row (store db) r \<noteq> None)"

section \<open>Terms of the statements\<close>

text \<open>\<open>datetime(y, mo, d, h, mi, s, tzinfo=timezone.utc)\<close>.\<close>

definition mk_datetime :: "nat \<Rightarrow> nat \<Rightarrow> nat \<Rightarrow> nat \<Rightarrow> nat \<Rightarrow> nat \<Rightarrow> datetime" where
  "mk_datetime y mo d h mi s =
     \<lparr>year = y, month = mo, day = d, hour = h, minute = mi, second = s, microsecond = 0\<rparr>"


text \<open>
  The rule of the year strategy in the words of the specification: the rule of the month
  strategy with the day of the year for the day of the month, and no cap.
\<close>

definition year_due_claimed :: "int \<Rightarrow> datetime \<Rightarrow> datetime \<Rightarrow> bool" where
  "year_due_claimed rt now last_reset =
     (let target_day = rt div 86400;
          target_seconds = rt mod 86400
      in (tm_yday now > target_day \<or>
            (tm_yday now = target_day \<and> seconds_of_day now \<ge> target_seconds)) \<and>
         (year now > year last_reset \<or>
            (year now = year last_reset \<and>
               (tm_yday last_reset < target_day \<or>
                  (tm_yday last_reset = target_day \<and> seconds_of_day last_reset < target_seconds)))))"


text \<open>A table of two nodes, both loaded in a session with nothing pending.\<close>

definition ex_node :: "int \<Rightarrow> NodeStatus \<Rightarrow> DataLimitResetStrategy \<Rightarrow> int \<Rightarrow> Node" where
  "ex_node i st strategy rt =
     \<lparr>id' = i, name = ''node'', address = ''10.0.0.1'', port = 62050, status = st,
      uplink = 100, downlink = 200, data_limit = 0, data_limit_reset_strategy = strategy,
      reset_time = rt, created_at = mk_datetime 2024 1 1 0 0 0, message = None,
      xray_version = None, node_version = None\<rparr>"

definition ex_db :: db_state where
  "ex_db = \<lparr>nodes = [ex_node 1 limited reset_day (- 1), ex_node 2 connected reset_week 0],
            node_usage_reset_logs = []\<rparr>"

definition ex_session :: session where
  "ex_session =
     \<lparr>store = ex_db,
      identity_map = [1 \<mapsto> ex_node 1 limited reset_day (- 1), 2 \<mapsto> ex_node 2 connected reset_week 0],
      new = []\<rparr>"

text \<open>A node of the year strategy, created on its target day before the target time.\<close>

definition year_node :: Node where
  "year_node = (ex_node 4 connected reset_year (10 * 86400 + 3600))
                 \<lparr>created_at := mk_datetime 2024 1 10 0 30 0\<rparr>"

section \<open>Auxiliary facts\<close>

lemmas cal_defs = mk_datetime_def toordinal_def days_before_year_def days_before_month_def
  DAYS_BEFORE_MONTH_def is_leap_def seconds_of_day_def tm_yday_def weekday_def date_diff_days_def
  date_gt_def valid_datetime_def days_in_month_def DAYS_IN_MONTH_def elapsed_seconds_def

lemmas ex_defs = ex_node_def ex_db_def ex_session_def identity_ok_def persistent_def get_row_def


lemma filter_nodes_subset: "set (filter_nodes db clock k ns) \<subseteq> set ns"
  by (induction ns arbitrary: k) (auto simp: Let_def)

lemma filter_nodes_absolute:
  "reset_time node \<noteq> - 1 \<Longrightarrow>
   filter_nodes db clock k (node # rest) =
     (if should_reset (data_limit_reset_strategy node) (reset_time node) (clock k)
           (last_reset_time db node)
      then node # filter_nodes db clock (Suc k) rest
      else filter_nodes db clock (Suc k) rest)"
  by (cases "usage_logs db node") (simp_all add: last_reset_time_def)




lemma store_bulk_loop: "store (bulk_loop db rs) = store db"
  by (induction rs arbitrary: db) (auto simp: add_def set_attrs_def Let_def split: option.splits)








lemma ex_node_sel:
  "id' (ex_node i st strategy rt) = i"
  "status (ex_node i st strategy rt) = st"
  "uplink (ex_node i st strategy rt) = 100"
  "downlink (ex_node i st strategy rt) = 200"
  "data_limit_reset_strategy (ex_node i st strategy rt) = strategy"
  "reset_time (ex_node i st strategy rt) = rt"
  "created_at (ex_node i st strategy rt) = mk_datetime 2024 1 1 0 0 0"
  by (simp_all add: ex_node_def)




section \<open>The claims\<close>



text \<open>
  C2: if the single commit of \<open>bulk_reset_node_usage\<close> fails, the call raises and both
  tables are as before the call: no counter is zeroed, no status changed, no log row
  written.
\<close>

theorem bulk_reset_commit_fails:
  "store (fst (bulk_reset_node_usage False stamp db rs)) = store db
   \<and> (\<forall>r \<in> set rs. get_row (store (fst (bulk_reset_node_usage False stamp db rs))) r
                       = get_row (store db) r)
   \<and> node_usage_reset_logs (store (fst (bulk_reset_node_usage False stamp db rs)))
       = node_usage_reset_logs (store db)
   \<and> (\<exists>e. snd (bulk_reset_node_usage False stamp db rs) = Inl e)"
proof -
  have "store (fst (bulk_reset_node_usage False stamp db rs)) = store db"
    by (simp add: bulk_reset_node_usage_def Let_def commit_def rollback_def store_bulk_loop)
  moreover have "\<exists>e. snd (bulk_reset_node_usage False stamp db rs) = Inl e"
    by (simp add: bulk_reset_node_usage_def Let_def commit_def)
  ultimately show ?thesis by simp
qed

theorem bulk_reset_commit_fails_witness:
  "get_row (store (fst (bulk_reset_node_usage False (mk_datetime 2024 2 1 0 0 0) ex_session [1, 2]))) 1
     = Some (ex_node 1 limited reset_day (- 1))
   \<and> node_usage_reset_logs
       (store (fst (bulk_reset_node_usage False (mk_datetime 2024 2 1 0 0 0) ex_session [1, 2]))) = []"
  using bulk_reset_commit_fails [of "mk_datetime 2024 2 1 0 0 0" ex_session "[1, 2]"]
  by (simp add: ex_session_def ex_db_def get_row_def ex_node_sel)




text \<open>
  C4: the year rule of the code and the rule of the claim differ. For a node with target
  day 10 at 01:00:00, last reset on 10 January 2024 at 00:30:00, and now the same day at
  02:00:00, the claim's rule says due and the code says not due: the code has no case for
  a last reset on the target day before the target time. The query returns no node.
\<close>

theorem year_same_day_missed:
  "\<not> should_reset reset_year (10 * 86400 + 3600)
        (mk_datetime 2024 1 10 2 0 0) (mk_datetime 2024 1 10 0 30 0)
   \<and> year_due_claimed (10 * 86400 + 3600)
        (mk_datetime 2024 1 10 2 0 0) (mk_datetime 2024 1 10 0 30 0)
   \<and> get_nodes_to_reset_usage \<lparr>nodes = [year_node], node_usage_reset_logs = []\<rparr>
        (mk_datetime 2024 1 10 2 0 0) (\<lambda>k. mk_datetime 2024 1 10 2 0 0) = []"
proof -
  let ?db = "\<lparr>nodes = [year_node], node_usage_reset_logs = []\<rparr>"
  let ?now = "mk_datetime 2024 1 10 2 0 0"
  have sel: "reset_time year_node = 10 * 86400 + 3600" "status year_node = connected"
    "data_limit_reset_strategy year_node = reset_year"
    "created_at year_node = mk_datetime 2024 1 10 0 30 0"
    by (simp_all add: year_node_def ex_node_sel)
  have code: "\<not> should_reset reset_year (10 * 86400 + 3600) ?now (mk_datetime 2024 1 10 0 30 0)"
    by (simp add: should_reset_def Let_def cal_defs)
  have claimed: "year_due_claimed (10 * 86400 + 3600) ?now (mk_datetime 2024 1 10 0 30 0)"
    by (simp add: year_due_claimed_def Let_def cal_defs)
  have last: "last_reset_time ?db year_node = mk_datetime 2024 1 10 0 30 0"
    by (simp add: last_reset_time_def usage_logs_def sel)
  have w: "stmt_where ?db ?now year_node"
    by (simp add: stmt_where_def sel)
  have "filter_nodes ?db (\<lambda>k. ?now) 0 [year_node] = []"
    using code by (subst filter_nodes_absolute) (simp_all add: sel last)
  then have "get_nodes_to_reset_usage ?db ?now (\<lambda>k. ?now) = []"
    using w by (simp add: get_nodes_to_reset_usage_def)
  with code claimed show ?thesis by blast
qed

text \<open>
  C5: the month strategy uses the target day \<open>min(reset_time // 86400, 28)\<close>, which is
  never greater than 28; the decision depends on \<open>reset_time\<close> only through this day and
  \<open>reset_time % 86400\<close>, so an encoding of day 28 or later decides as day 28 does.
\<close>

theorem month_target_capped:
  "month_target_day rt = min (rt div 86400) 28
   \<and> month_target_day rt \<le> 28
   \<and> (should_reset reset_month rt now last_reset \<longleftrightarrow>
        (int (day now) > month_target_day rt \<or>
           (int (day now) = month_target_day rt \<and>
            seconds_of_day now \<ge> rt mod 86400)) \<and>
        (year now > year last_reset \<or> month now > month last_reset \<or>
           (month now = month last_reset \<and>
              (int (day last_reset) < month_target_day rt \<or>
                 (int (day last_reset) = month_target_day rt \<and>
                  seconds_of_day last_reset < rt mod 86400)))))
   \<and> (rt div 86400 \<ge> 28 \<longrightarrow>
        should_reset reset_month rt now last_reset =
        should_reset reset_month (28 * 86400 + rt mod 86400) now last_reset)"
proof -
  have "0 \<le> rt mod 86400" "rt mod 86400 < 86400" by simp_all
  then have d: "(28 * 86400 + rt mod 86400) div 86400 = 28"
    by (simp add: div_pos_pos_trivial)
  have "(28 * 86400 + rt mod 86400) mod 86400 = (86400 * 28 + rt mod 86400) mod 86400" by simp
  also have "\<dots> = (rt mod 86400) mod 86400" by (rule mod_mult_self4)
  finally have m: "(28 * 86400 + rt mod 86400) mod 86400 = rt mod 86400" by simp
  have capped: "rt div 86400 \<ge> 28 \<Longrightarrow>
        should_reset reset_month rt now last_reset =
        should_reset reset_month (28 * 86400 + rt mod 86400) now last_reset"
    unfolding should_reset_def month_target_day_def d m by (simp add: Let_def)
  show ?thesis
    using capped by (simp add: should_reset_def Let_def month_target_day_def)
qed

theorem month_target_capped_witness:
  "28 \<le> (31 * 86400) div (86400 :: int)
   \<and> should_reset reset_month (31 * 86400) (mk_datetime 2024 2 28 0 0 0) (mk_datetime 2024 1 28 0 0 0)
   \<and> \<not> should_reset reset_month (31 * 86400) (mk_datetime 2024 2 27 23 59 59) (mk_datetime 2024 1 28 0 0 0)"
  using month_target_capped [of "31 * 86400" "mk_datetime 2024 2 28 0 0 0" "mk_datetime 2024 1 28 0 0 0"]
    month_target_capped [of "31 * 86400" "mk_datetime 2024 2 27 23 59 59" "mk_datetime 2024 1 28 0 0 0"]
  by (simp add: cal_defs)



text \<open>
  C7: a week-strategy node in absolute mode is due exactly when at least 7 calendar days
  lie between the last reset and now, the seconds of the week of now have reached
  \<open>reset_time\<close>, and either the last reset's seconds of the week are below \<open>reset_time\<close>
  or more than 7 days have passed. It is never due with fewer than 7 calendar days.
\<close>

theorem week_due_iff:
  "(should_reset reset_week rt now last_reset \<longleftrightarrow>
      date_diff_days now last_reset \<ge> 7 \<and>
      weekday now * 86400 + seconds_of_day now \<ge> rt \<and>
      (weekday last_reset * 86400 + seconds_of_day last_reset < rt \<or>
       date_diff_days now last_reset > 7))
   \<and> (date_diff_days now last_reset < 7 \<longrightarrow>
        \<not> should_reset reset_week rt now last_reset)"
  by (simp add: should_reset_def Let_def)

theorem week_due_iff_witness:
  "date_diff_days (mk_datetime 2024 1 3 2 0 0) (mk_datetime 2024 1 1 0 0 0) < 7
   \<and> \<not> should_reset reset_week (3 * 86400 + 3600)
          (mk_datetime 2024 1 3 2 0 0) (mk_datetime 2024 1 1 0 0 0)
   \<and> should_reset reset_week (3 * 86400 + 3600)
          (mk_datetime 2024 1 11 1 0 0) (mk_datetime 2024 1 1 0 0 0)"
  using week_due_iff [of "3 * 86400 + 3600" "mk_datetime 2024 1 3 2 0 0" "mk_datetime 2024 1 1 0 0 0"]
    week_due_iff [of "3 * 86400 + 3600" "mk_datetime 2024 1 11 1 0 0" "mk_datetime 2024 1 1 0 0 0"]
  by (simp add: cal_defs)

text \<open>
  C8: every node that \<open>get_nodes_to_reset_usage\<close> returns has a status among connecting,
  connected, error and limited, and a strategy other than \<open>no_reset\<close>; a disabled node
  and a \<open>no_reset\<close> node are never returned.
\<close>

theorem selected_nodes_eligible:
  "(node \<in> set (get_nodes_to_reset_usage db sql_now clock) \<longrightarrow>
      status node \<in> {connecting, connected, error, limited} \<and>
      data_limit_reset_strategy node \<noteq> no_reset)
   \<and> (status node = disabled \<longrightarrow> node \<notin> set (get_nodes_to_reset_usage db sql_now clock))
   \<and> (data_limit_reset_strategy node = no_reset \<longrightarrow>
        node \<notin> set (get_nodes_to_reset_usage db sql_now clock))"
proof -
  have "set (get_nodes_to_reset_usage db sql_now clock)
          \<subseteq> set (filter (stmt_where db sql_now) (nodes db))"
    unfolding get_nodes_to_reset_usage_def by (rule filter_nodes_subset)
  then have "node \<in> set (get_nodes_to_reset_usage db sql_now clock) \<Longrightarrow> stmt_where db sql_now node"
    by auto
  then show ?thesis
    by (auto simp: stmt_where_def)
qed

theorem selected_nodes_eligible_witness:
  "ex_node 1 limited reset_day (- 1)
     \<in> set (get_nodes_to_reset_usage ex_db (mk_datetime 2024 1 2 0 0 0) (\<lambda>k. mk_datetime 2024 1 2 0 0 0))
   \<and> status (ex_node 1 limited reset_day (- 1)) \<in> {connecting, connected, error, limited}
   \<and> ex_node 3 disabled reset_day (- 1)
     \<notin> set (get_nodes_to_reset_usage
               (ex_db\<lparr>nodes := ex_node 3 disabled reset_day (- 1) # nodes ex_db\<rparr>)
               (mk_datetime 2024 1 2 0 0 0) (\<lambda>k. mk_datetime 2024 1 2 0 0 0))"
proof -
  let ?n = "ex_node 1 limited reset_day (- 1)"
  let ?now = "mk_datetime 2024 1 2 0 0 0"
  have last: "last_reset_time ex_db ?n = mk_datetime 2024 1 1 0 0 0"
    by (simp add: last_reset_time_def usage_logs_def ex_db_def ex_node_sel)
  have dd: "date_diff_days ?now (mk_datetime 2024 1 1 0 0 0) = 1"
    by (simp add: mk_datetime_def date_diff_days_def toordinal_def days_before_year_def
        days_before_month_def DAYS_BEFORE_MONTH_def)
  have due: "interval_due reset_day ?now (mk_datetime 2024 1 1 0 0 0)"
    unfolding interval_due_def num_days_to_reset_case_def DateDiff_def dd by simp
  have w: "stmt_where ex_db ?now ?n"
    using due by (simp add: stmt_where_def ex_node_sel last)
  have "filter_nodes ex_db (\<lambda>k. ?now) 0 (?n # ns) = ?n # filter_nodes ex_db (\<lambda>k. ?now) 0 ns" for ns
    by (simp add: ex_node_sel)
  then have m: "?n \<in> set (get_nodes_to_reset_usage ex_db ?now (\<lambda>k. ?now))"
    using w by (simp add: get_nodes_to_reset_usage_def ex_db_def)
  show ?thesis
    using m selected_nodes_eligible [of ?n ex_db ?now "\<lambda>k. ?now"]
      selected_nodes_eligible [of "ex_node 3 disabled reset_day (- 1)"
        "ex_db\<lparr>nodes := ex_node 3 disabled reset_day (- 1) # nodes ex_db\<rparr>" ?now "\<lambda>k. ?now"]
    by (simp add: ex_node_sel)
qed

text \<open>
  C9: the validator raises exactly when the strategy is day, week, month or year,
  \<open>reset_time\<close> is not -1 and \<open>reset_time\<close> is at least the maximum of the strategy
  (86400, 604800, 2678400, 31536000); otherwise it returns the model unchanged.
\<close>

theorem validate_reset_time_cases:
  "validate_reset_time_for_strategy
     \<lparr>nc_data_limit_reset_strategy = Some s, nc_reset_time = rt\<rparr> =
   (if s \<in> {reset_day, reset_week, reset_month, reset_year} \<and> rt \<noteq> - 1 \<and>
       rt \<ge> (case s of reset_day \<Rightarrow> 86400 | reset_week \<Rightarrow> 604800
                | reset_month \<Rightarrow> 2678400 | reset_year \<Rightarrow> 31536000 | no_reset \<Rightarrow> 0)
    then Inl ValueError
    else Inr \<lparr>nc_data_limit_reset_strategy = Some s, nc_reset_time = rt\<rparr>)"
  by (cases s) (simp_all add: validate_reset_time_for_strategy_def max_values_def
      SECONDS_IN_DAY_def SECONDS_IN_WEEK_def SECONDS_IN_MONTH_def SECONDS_IN_YEAR_def)

theorem validate_reset_time_cases_witness:
  "validate_reset_time_for_strategy
     \<lparr>nc_data_limit_reset_strategy = Some reset_day, nc_reset_time = 86400\<rparr> = Inl ValueError
   \<and> validate_reset_time_for_strategy
     \<lparr>nc_data_limit_reset_strategy = Some reset_day, nc_reset_time = 86399\<rparr> =
       Inr \<lparr>nc_data_limit_reset_strategy = Some reset_day, nc_reset_time = 86399\<rparr>"
  using validate_reset_time_cases [of reset_day 86400] validate_reset_time_cases [of reset_day 86399]
  by simp



end
